theory Spec2Isabelle
  imports Main "HOL-Library.Sublist"
begin

section \<open>JavaScript values, strings and string primitives\<close>

text \<open>
  The buffer classifiers of \<^verbatim>\<open>processMtpBuffer\<close>, \<^verbatim>\<open>processLocalBuffer\<close> and
  \<^verbatim>\<open>sanitizeErrors\<close> are embedded as HOL functions. A field of the input object
  \<^verbatim>\<open>{ error, stderr }\<close> is \<^verbatim>\<open>null\<close>, a string or an \<^verbatim>\<open>Error\<close> object (with its
  \<^verbatim>\<open>name\<close> and \<^verbatim>\<open>message\<close>). Strings are lists of characters, read as the code units
  below 256. The case mappings are those of the ASCII and the Latin-1 letters; the upper
  case of \<^verbatim>\<open>U+00B5\<close>, \<^verbatim>\<open>U+00DF\<close> and \<^verbatim>\<open>U+00FF\<close> is not below 256, and these three are left
  as they are. The white space of \<^verbatim>\<open>trim\<close> is the ASCII white space and the no-break space.
\<close>

datatype jsval = JNull | JStr string | JError string string

datatype exn = TypeError

text \<open>\<^verbatim>\<open>Error.prototype.toString\<close>: the name, the message, or both joined by a colon.\<close>

definition errorToString :: "string \<Rightarrow> string \<Rightarrow> string" where
  "errorToString name msg =
     (if name = [] then msg else if msg = [] then name else name @ '': '' @ msg)"

text \<open>
  \<^verbatim>\<open>(v !== null && v.toString()) || ''\<close>: \<^verbatim>\<open>toString\<close> is reached on a non-null value
  only, and an empty outcome of it is replaced by the empty string.
\<close>

definition stringify :: "jsval \<Rightarrow> string" where
  "stringify v =
     (case v of
        JNull \<Rightarrow> []
      | JStr s \<Rightarrow> (if s \<noteq> [] then s else [])
      | JError name msg \<Rightarrow> (if errorToString name msg \<noteq> [] then errorToString name msg else []))"

definition upperLetters :: string where
  "upperLetters = ''ABCDEFGHIJKLMNOPQRSTUVWXYZ'' @
     [CHR 0xC0, CHR 0xC1, CHR 0xC2, CHR 0xC3, CHR 0xC4, CHR 0xC5, CHR 0xC6, CHR 0xC7, CHR 0xC8, CHR 0xC9,
      CHR 0xCA, CHR 0xCB, CHR 0xCC, CHR 0xCD, CHR 0xCE, CHR 0xCF, CHR 0xD0, CHR 0xD1, CHR 0xD2, CHR 0xD3,
      CHR 0xD4, CHR 0xD5, CHR 0xD6, CHR 0xD8, CHR 0xD9, CHR 0xDA, CHR 0xDB, CHR 0xDC, CHR 0xDD, CHR 0xDE]"

definition lowerLetters :: string where
  "lowerLetters = ''abcdefghijklmnopqrstuvwxyz'' @
     [CHR 0xE0, CHR 0xE1, CHR 0xE2, CHR 0xE3, CHR 0xE4, CHR 0xE5, CHR 0xE6, CHR 0xE7, CHR 0xE8, CHR 0xE9,
      CHR 0xEA, CHR 0xEB, CHR 0xEC, CHR 0xED, CHR 0xEE, CHR 0xEF, CHR 0xF0, CHR 0xF1, CHR 0xF2, CHR 0xF3,
      CHR 0xF4, CHR 0xF5, CHR 0xF6, CHR 0xF8, CHR 0xF9, CHR 0xFA, CHR 0xFB, CHR 0xFC, CHR 0xFD, CHR 0xFE]"

definition toLowerChar :: "char \<Rightarrow> char" where
  "toLowerChar c = (case map_of (zip upperLetters lowerLetters) c of Some d \<Rightarrow> d | None \<Rightarrow> c)"

definition toUpperChar :: "char \<Rightarrow> char" where
  "toUpperChar c = (case map_of (zip lowerLetters upperLetters) c of Some d \<Rightarrow> d | None \<Rightarrow> c)"

definition toLowerCase :: "string \<Rightarrow> string" where
  "toLowerCase s = map toLowerChar s"

definition toUpperCase :: "string \<Rightarrow> string" where
  "toUpperCase s = map toUpperChar s"

definition isWhiteSpace :: "char \<Rightarrow> bool" where
  "isWhiteSpace c \<longleftrightarrow>
     c \<in> set [CHR 0x09, CHR 0x0A, CHR 0x0B, CHR 0x0C, CHR 0x0D, CHR 0x20, CHR 0xA0]"

definition trim :: "string \<Rightarrow> string" where
  "trim s = rev (dropWhile isWhiteSpace (rev (dropWhile isWhiteSpace s)))"

text \<open>\<^verbatim>\<open>s.indexOf(p)\<close>: the first position at which \<open>p\<close> starts in \<open>s\<close>, or \<open>-1\<close>.\<close>

fun indexOfFrom :: "nat \<Rightarrow> string \<Rightarrow> string \<Rightarrow> int" where
  "indexOfFrom i [] p = (if p = [] then int i else - 1)"
| "indexOfFrom i (c # cs) p = (if prefix p (c # cs) then int i else indexOfFrom (Suc i) cs p)"

definition indexOf :: "string \<Rightarrow> string \<Rightarrow> int" where
  "indexOf s p = indexOfFrom 0 s p"

text \<open>\<^verbatim>\<open>EOL\<close> of the \<^verbatim>\<open>os\<close> module, on the POSIX platforms the application runs on.\<close>

definition EOL :: string where
  "EOL = [CHR 0x0A]"

section \<open>The sanitizer\<close>

text \<open>
  Modelled from the spec: \<^verbatim>\<open>replaceBulk\<close> is imported from \<^verbatim>\<open>./funcs\<close>, which is not
  among the sources. The spec has it remove all occurrences of the given literal
  substrings anywhere in the string. \<open>replaceBulk\<close> is one pass over the string from left
  to right, which at each position replaces the first of the \<open>findArray\<close> entries that
  starts there by its \<open>replaceArray\<close> partner and goes on behind it (a global replace by
  the alternation of the literals). A match \<open>f\<close> at \<open>c # cs\<close> is not empty, so what lies
  behind it is \<open>drop (length f - 1) cs\<close>. The spec does not say whether an occurrence that
  the removal itself puts together is removed as well; \<open>replaceBulkUntilNone\<close> below
  repeats the pass until it is.
\<close>

fun firstMatch :: "string list \<Rightarrow> string list \<Rightarrow> string \<Rightarrow> (string \<times> string) option" where
  "firstMatch (f # fs) (r # rs) s =
     (if f \<noteq> [] \<and> prefix f s then Some (f, r) else firstMatch fs rs s)"
| "firstMatch _ _ s = None"

fun replaceBulk :: "string \<Rightarrow> string list \<Rightarrow> string list \<Rightarrow> string" where
  "replaceBulk [] findArray replaceArray = []"
| "replaceBulk (c # cs) findArray replaceArray =
     (case firstMatch findArray replaceArray (c # cs) of
        Some (f, r) \<Rightarrow> r @ replaceBulk (drop (length f - 1) cs) findArray replaceArray
      | None \<Rightarrow> c # replaceBulk cs findArray replaceArray)"

text \<open>
  \<^verbatim>\<open>sanitizeErrors\<close>: the fallback text for \<^verbatim>\<open>null\<close>; otherwise a leading \<^verbatim>\<open>error: \<close> is
  cut (the regular expression \<^verbatim>\<open>/^(error: )/\<close>), the string is trimmed, \<^verbatim>\<open>error:\<close> and
  \<^verbatim>\<open>stat failed:\<close> are replaced by nothing, the string is trimmed again and its first
  character is put in upper case.
\<close>

definition capitalizeFirst :: "string \<Rightarrow> string" where
  "capitalizeFirst s = toUpperCase (take 1 s) @ drop 1 s"

definition sanitizeErrors :: "string option \<Rightarrow> string" where
  "sanitizeErrors string =
     (case string of
        None \<Rightarrow> ''Oops.. Try again''
      | Some s0 \<Rightarrow>
          (let s1 = trim (if prefix ''error: '' s0 then drop (length ''error: '') s0 else s0);
               s2 = trim (replaceBulk s1 [''error:'', ''stat failed:''] ['''', ''''])
           in capitalizeFirst s2))"

text \<open>
  \<^verbatim>\<open>sanitizeErrors\<close> once more, with the imported \<^verbatim>\<open>replaceBulk\<close> as a parameter;
  \<open>sanitizeErrors\<close> is its instance at the one-pass \<open>replaceBulk\<close>.
\<close>

definition sanitizeErrorsWith ::
  "(string \<Rightarrow> string list \<Rightarrow> string list \<Rightarrow> string) \<Rightarrow> string option \<Rightarrow> string" where
  "sanitizeErrorsWith replaceBulkFn string =
     (case string of
        None \<Rightarrow> ''Oops.. Try again''
      | Some s0 \<Rightarrow>
          (let s1 = trim (if prefix ''error: '' s0 then drop (length ''error: '') s0 else s0);
               s2 = trim (replaceBulkFn s1 [''error:'', ''stat failed:''] ['''', ''''])
           in capitalizeFirst s2))"

text \<open>
  Modelled from the spec: what "remove all occurrences of the literal substrings
  \<^verbatim>\<open>error:\<close> and \<^verbatim>\<open>stat failed:\<close> anywhere in the string" asks of the absent
  \<^verbatim>\<open>replaceBulk\<close> at its call in \<^verbatim>\<open>sanitizeErrors\<close>: the result holds neither literal, and a
  string that holds neither is returned as it is.
\<close>

definition removesAllOccurrences ::
  "(string \<Rightarrow> string list \<Rightarrow> string list \<Rightarrow> string) \<Rightarrow> bool" where
  "removesAllOccurrences replaceBulkFn \<longleftrightarrow>
     (\<forall>s. \<not> sublist ''error:'' (replaceBulkFn s [''error:'', ''stat failed:''] ['''', '''']) \<and>
          \<not> sublist ''stat failed:'' (replaceBulkFn s [''error:'', ''stat failed:''] ['''', '''']) \<and>
          (\<not> sublist ''error:'' s \<and> \<not> sublist ''stat failed:'' s \<longrightarrow>
             replaceBulkFn s [''error:'', ''stat failed:''] ['''', ''''] = s))"



section \<open>Results, exceptions and the trace of a call\<close>

text \<open>
  The object a classifier returns. \<^verbatim>\<open>error: null\<close> is \<open>None\<close>; a \<open>status\<close> of \<open>None\<close>
  is an object without the \<^verbatim>\<open>status\<close> property.
\<close>

record result =
  error :: "string option"
  throwAlert :: bool
  logError :: bool
  status :: "bool option"

text \<open>
  A call either returns a value or throws, and on its way it leaves a trace: one entry
  for each call of \<^verbatim>\<open>checkError\<close> (with the key it was called with) and one for each
  call of \<^verbatim>\<open>log.doLog\<close> (with its message and, where the call passes one, its flag).
\<close>

datatype event = CheckError string | DoLog string "bool option"

type_synonym 'a comp = "(exn + 'a) \<times> event list"

definition ret :: "'a \<Rightarrow> 'a comp" where
  "ret x = (Inr x, [])"

definition throw :: "exn \<Rightarrow> 'a comp" where
  "throw e = (Inl e, [])"

definition emit :: "event \<Rightarrow> unit comp" where
  "emit ev = (Inr (), [ev])"

definition andThen :: "'a comp \<Rightarrow> ('a \<Rightarrow> 'b comp) \<Rightarrow> 'b comp" where
  "andThen m f =
     (case m of
        (Inl e, t) \<Rightarrow> (Inl e, t)
      | (Inr x, t) \<Rightarrow> (case f x of (r, t') \<Rightarrow> (r, t @ t')))"

text \<open>\<^verbatim>\<open>a || b\<close> and \<^verbatim>\<open>if (a) ... else ...\<close> on conditions that are calls.\<close>

definition orElse :: "bool comp \<Rightarrow> bool comp \<Rightarrow> bool comp" where
  "orElse a b = andThen a (\<lambda>x. if x then ret True else b)"

definition ifThenElse :: "bool comp \<Rightarrow> 'a comp \<Rightarrow> 'a comp \<Rightarrow> 'a comp" where
  "ifThenElse a t e = andThen a (\<lambda>x. if x then t else e)"

definition outcome :: "'a comp \<Rightarrow> exn + 'a" where
  "outcome m = fst m"

definition events :: "'a comp \<Rightarrow> event list" where
  "events m = snd m"

text \<open>
  \<^verbatim>\<open>checkError\<close>, the closure of both classifiers, over the \<^verbatim>\<open>errorTpl\<close> object and the
  two stringified fields. An object literal is an association list and a property read
  is \<open>map_of\<close>; a key that \<^verbatim>\<open>errorTpl\<close> does not have reads as \<^verbatim>\<open>undefined\<close>, and calling
  \<^verbatim>\<open>toLowerCase\<close> on it throws a \<^verbatim>\<open>TypeError\<close>.
\<close>

definition checkError :: "(string \<times> string) list \<Rightarrow> string \<Rightarrow> string \<Rightarrow> string \<Rightarrow> bool comp" where
  "checkError errorTpl errorStringified stderrStringified errorTplKey =
     andThen (emit (CheckError errorTplKey)) (\<lambda>_.
       case map_of errorTpl errorTplKey of
         None \<Rightarrow> throw TypeError
       | Some tpl \<Rightarrow>
           ret (indexOf (toLowerCase stderrStringified) (toLowerCase tpl) \<noteq> - 1 \<or>
                indexOf (toLowerCase errorStringified) (toLowerCase tpl) \<noteq> - 1))"

definition doLog :: "string \<Rightarrow> bool option \<Rightarrow> unit comp" where
  "doLog msg loud = emit (DoLog msg loud)"

section \<open>The MTP channel\<close>

definition mtpErrorTpl :: "(string \<times> string) list" where
  "mtpErrorTpl =
     [(''noMtp'', ''No MTP device found''),
      (''invalidObjectHandle'', ''invalid response code InvalidObjectHandle''),
      (''invalidStorageID'', ''invalid response code InvalidStorageID''),
      (''fileNotFound'', ''could not find''),
      (''noFilesSelected'', ''No files selected''),
      (''invalidPath'', ''Invalid path''),
      (''noSuchFiles'', ''No such file or directory''),
      (''writePipe'', ''WritePipe''),
      (''mtpStorageNotAccessible1'', ''MTP storage not accessible''),
      (''mtpStorageNotAccessible2'', ''error: storage''),
      (''partialDeletion'', ''PartialDeletion'')]"

definition mtpErrorDictionary :: "(string \<times> string) list" where
  "mtpErrorDictionary =
     [(''noMtp'', ''No MTP device found.''),
      (''common'', ''Oops.. Your MTP device has gone crazy! Try again.''),
      (''unResponsive'', ''MTP device is not responding. Reload or reconnect device.''),
      (''mtpStorageNotAccessible'', ''MTP storage not accessible.''),
      (''fileNotFound'', ''File not found! Try again.''),
      (''partialDeletion'', ''The path is inaccessible.'')]"

definition mtpLogMessage :: "string \<Rightarrow> string \<Rightarrow> string" where
  "mtpLogMessage errorStringified stderrStringified =
     ''MTP buffer o/p logging;'' @ EOL @ ''error: '' @ trim errorStringified @ EOL @
     ''stderr: '' @ trim stderrStringified"

definition processMtpBuffer :: "jsval \<Rightarrow> jsval \<Rightarrow> result comp" where
  "processMtpBuffer errorArg stderrArg =
     (let errorTpl = mtpErrorTpl;
          errorDictionary = map_of mtpErrorDictionary;
          errorStringified = stringify errorArg;
          stderrStringified = stringify stderrArg
      in
        if errorStringified = [] \<and> stderrStringified = [] then
          ret \<lparr>error = None, throwAlert = False, logError = True, status = Some True\<rparr>
        else
          let check = checkError errorTpl errorStringified stderrStringified in
          andThen (check ''noMtp'') (\<lambda>noMtpError.
          andThen (doLog (mtpLogMessage errorStringified stderrStringified)
                     (Some (\<not> noMtpError))) (\<lambda>_.
          if noMtpError then
            ret \<lparr>error = errorDictionary ''noMtp'',
                 throwAlert = False, logError = False, status = Some False\<rparr>
          else ifThenElse (check ''invalidObjectHandle'')
            (ret \<lparr>error = errorDictionary ''unResponsive'',
                  throwAlert = True, logError = True, status = Some False\<rparr>)
          (ifThenElse (check ''invalidStorageID'')
            (ret \<lparr>error = errorDictionary ''unResponsive'',
                  throwAlert = True, logError = True, status = Some False\<rparr>)
          (ifThenElse (check ''writePipe'')
            (ret \<lparr>error = errorDictionary ''unResponsive'',
                  throwAlert = True, logError = True, status = Some False\<rparr>)
          (ifThenElse (orElse (check ''mtpStorageNotAccessible1'')
                              (check ''mtpStorageNotAccessible2''))
            (ret \<lparr>error = errorDictionary ''mtpStorageNotAccessible'',
                  throwAlert = True, logError = True, status = Some False\<rparr>)
          (ifThenElse (check ''fileNotFound'')
            (ret \<lparr>error = Some (sanitizeErrors (Some
                    (if stderrStringified \<noteq> [] then stderrStringified else errorStringified))),
                  throwAlert = True, logError = True, status = Some True\<rparr>)
          (ifThenElse (check ''noSuchFiles'')
            (ret \<lparr>error = errorDictionary ''fileNotFound'',
                  throwAlert = True, logError = True, status = Some True\<rparr>)
          (ifThenElse (orElse (check ''noFilesSelected'') (check ''invalidPath''))
            (ret \<lparr>error = Some (sanitizeErrors (Some
                    (if stderrStringified \<noteq> [] then stderrStringified else errorStringified))),
                  throwAlert = True, logError = True, status = Some True\<rparr>)
          (ifThenElse (check ''partialDeletion'')
            (ret \<lparr>error = errorDictionary ''partialDeletion'',
                  throwAlert = True, logError = True, status = Some True\<rparr>)
            (ret \<lparr>error = errorDictionary ''common'',
                  throwAlert = True, logError = True, status = Some True\<rparr>)))))))))))"

section \<open>The Local channel\<close>

definition localErrorTpl :: "(string \<times> string) list" where
  "localErrorTpl =
     [(''noPerm1'', ''Operation not permitted''),
      (''noPerm2'', ''Permission denied''),
      (''commandFailed'', ''Command failed''),
      (''noSuchFiles'', ''No such file or directory'')]"

definition localErrorDictionary :: "(string \<times> string) list" where
  "localErrorDictionary =
     [(''noPerm'', ''Operation not permitted.''),
      (''commandFailed'', ''Could not complete! Try again.''),
      (''common'', ''Oops.. Your device has gone crazy! Try again.''),
      (''unResponsive'', ''Device is not responding! Reload''),
      (''invalidPath'', ''Invalid path''),
      (''fileNotFound'', ''File not found! Try again.'')]"

definition localLogMessage :: "string \<Rightarrow> string \<Rightarrow> string" where
  "localLogMessage errorStringified stderrStringified =
     ''Local buffer o/p logging;'' @ EOL @ ''error: '' @ trim errorStringified @ EOL @
     ''stderr: '' @ trim stderrStringified"

definition processLocalBuffer :: "jsval \<Rightarrow> jsval \<Rightarrow> result comp" where
  "processLocalBuffer errorArg stderrArg =
     (let errorTpl = localErrorTpl;
          errorDictionary = map_of localErrorDictionary;
          errorStringified = stringify errorArg;
          stderrStringified = stringify stderrArg
      in
        if errorStringified = [] \<and> stderrStringified = [] then
          ret \<lparr>error = None, throwAlert = False, logError = True, status = None\<rparr>
        else
          let check = checkError errorTpl errorStringified stderrStringified in
          andThen (doLog (localLogMessage errorStringified stderrStringified) None) (\<lambda>_.
          ifThenElse (orElse (check ''noPerm1'') (check ''noPerm2''))
            (ret \<lparr>error = errorDictionary ''noPerm'',
                  throwAlert = True, logError = True, status = None\<rparr>)
          (ifThenElse (check ''commandFailed'')
            (ret \<lparr>error = errorDictionary ''commandFailed'',
                  throwAlert = True, logError = True, status = None\<rparr>)
          (ifThenElse (check ''noSuchFiles'')
            (ret \<lparr>error = errorDictionary ''fileNotFound'',
                  throwAlert = True, logError = True, status = Some True\<rparr>)
          (ifThenElse (check ''invalidPath'')
            (ret \<lparr>error = Some errorStringified,
                  throwAlert = True, logError = True, status = None\<rparr>)
            (ret \<lparr>error = errorDictionary ''common'',
                  throwAlert = True, logError = True, status = None\<rparr>))))))"

section \<open>Vocabulary of the properties\<close>

text \<open>
  An input mentions a pattern when the pattern, in lower case, occurs as a contiguous
  piece of the lower-cased \<^verbatim>\<open>stderr\<close> text or of the lower-cased \<^verbatim>\<open>error\<close> text.
\<close>

definition mentions :: "jsval \<Rightarrow> jsval \<Rightarrow> string \<Rightarrow> bool" where
  "mentions errorArg stderrArg p \<longleftrightarrow>
     sublist (toLowerCase p) (toLowerCase (stringify stderrArg)) \<or>
     sublist (toLowerCase p) (toLowerCase (stringify errorArg))"

text \<open>Both fields are \<^verbatim>\<open>null\<close> or stringify to the empty string.\<close>

definition bothEmpty :: "jsval \<Rightarrow> jsval \<Rightarrow> bool" where
  "bothEmpty errorArg stderrArg \<longleftrightarrow> stringify errorArg = [] \<and> stringify stderrArg = []"


section \<open>Evaluating the case mapping\<close>

text \<open>
  Every upper-case letter of the table has bit 6 set and bit 5 clear, so \<open>toLowerChar\<close>
  can skip the table for every other character; this is the equation it is evaluated by.
\<close>

lemma upperLetters_bits:
  assumes "Char b0 b1 b2 b3 b4 b5 b6 b7 \<in> set upperLetters"
  shows "b6 \<and> \<not> b5"
proof -
  have "list_all (\<lambda>c. case c of Char a0 a1 a2 a3 a4 a5 a6 a7 \<Rightarrow> a6 \<and> \<not> a5) upperLetters"
    by code_simp
  with assms show ?thesis unfolding list_all_iff by fastforce
qed

lemma toLowerChar_code [code]:
  "toLowerChar (Char b0 b1 b2 b3 b4 b5 b6 b7) =
     (if b6 \<and> \<not> b5 then
        (case map_of (zip upperLetters lowerLetters) (Char b0 b1 b2 b3 b4 b5 b6 b7) of
           Some d \<Rightarrow> d
         | None \<Rightarrow> Char b0 b1 b2 b3 b4 b5 b6 b7)
      else Char b0 b1 b2 b3 b4 b5 b6 b7)"
proof (cases "b6 \<and> \<not> b5")
  case True
  show ?thesis unfolding toLowerChar_def by (rule if_P [OF True, symmetric])
next
  case False
  have none: "map_of (zip upperLetters lowerLetters) (Char b0 b1 b2 b3 b4 b5 b6 b7) = None"
  proof (rule ccontr)
    assume "map_of (zip upperLetters lowerLetters) (Char b0 b1 b2 b3 b4 b5 b6 b7) \<noteq> None"
    then obtain d where "map_of (zip upperLetters lowerLetters) (Char b0 b1 b2 b3 b4 b5 b6 b7) = Some d"
      by blast
    then have "Char b0 b1 b2 b3 b4 b5 b6 b7 \<in> set upperLetters"
      by (auto dest!: map_of_SomeD set_zip_leftD)
    then have "b6 \<and> \<not> b5" by (rule upperLetters_bits)
    with False show False by blast
  qed
  have l: "toLowerChar (Char b0 b1 b2 b3 b4 b5 b6 b7) = Char b0 b1 b2 b3 b4 b5 b6 b7"
    unfolding toLowerChar_def none by simp
  show ?thesis by (subst l) (rule if_not_P [OF False, symmetric])
qed

section \<open>Substring search\<close>

lemma indexOfFrom_sublist: "indexOfFrom i s p \<noteq> - 1 \<longleftrightarrow> sublist p s"
proof (induction s arbitrary: i)
  case Nil
  show ?case by simp
next
  case (Cons c cs)
  show ?case
  proof (cases "prefix p (c # cs)")
    case True
    then show ?thesis by (simp add: sublist_Cons_right)
  next
    case False
    then show ?thesis using Cons.IH [of "Suc i"] by (simp add: sublist_Cons_right)
  qed
qed

lemma indexOf_sublist: "indexOf s p \<noteq> - 1 \<longleftrightarrow> sublist p s"
  by (simp add: indexOf_def indexOfFrom_sublist)

section \<open>Calls of \<open>checkError\<close> and the combinators\<close>

lemma checkError_known:
  "map_of errorTpl k = Some p \<Longrightarrow>
   checkError errorTpl (stringify e) (stringify s) k = (Inr (mentions e s p), [CheckError k])"
  by (simp add: checkError_def andThen_def emit_def ret_def indexOf_sublist mentions_def)

lemma checkError_unknown:
  "map_of errorTpl k = None \<Longrightarrow>
   checkError errorTpl e s k = (Inl TypeError, [CheckError k])"
  by (simp add: checkError_def andThen_def emit_def throw_def)

lemma outcome_andThen_Inr: "outcome (andThen (Inr x, t) f) = outcome (f x)"
  by (simp add: outcome_def andThen_def split: prod.splits)

lemma outcome_andThen_Inl: "outcome (andThen (Inl x, t) f) = Inl x"
  by (simp add: outcome_def andThen_def split: prod.splits)

lemma outcome_ifThenElse: "outcome (ifThenElse (Inr b, t) m n) = (if b then outcome m else outcome n)"
  by (simp add: ifThenElse_def outcome_andThen_Inr)

lemma outcome_ifThenElse_Inl: "outcome (ifThenElse (Inl x, t) m n) = Inl x"
  by (simp add: ifThenElse_def outcome_andThen_Inl)

lemma orElse_Inr: "orElse (Inr a, t) (Inr b, t') = (Inr (a \<or> b), if a then t else t @ t')"
  by (simp add: orElse_def andThen_def ret_def)

lemma outcome_ret: "outcome (ret x) = Inr x"
  by (simp add: outcome_def ret_def)

lemma mtp_keys:
  "map_of mtpErrorTpl ''noMtp'' = Some ''No MTP device found''"
  "map_of mtpErrorTpl ''invalidObjectHandle'' = Some ''invalid response code InvalidObjectHandle''"
  "map_of mtpErrorTpl ''invalidStorageID'' = Some ''invalid response code InvalidStorageID''"
  "map_of mtpErrorTpl ''fileNotFound'' = Some ''could not find''"
  "map_of mtpErrorTpl ''noFilesSelected'' = Some ''No files selected''"
  "map_of mtpErrorTpl ''invalidPath'' = Some ''Invalid path''"
  "map_of mtpErrorTpl ''noSuchFiles'' = Some ''No such file or directory''"
  "map_of mtpErrorTpl ''writePipe'' = Some ''WritePipe''"
  "map_of mtpErrorTpl ''mtpStorageNotAccessible1'' = Some ''MTP storage not accessible''"
  "map_of mtpErrorTpl ''mtpStorageNotAccessible2'' = Some ''error: storage''"
  "map_of mtpErrorTpl ''partialDeletion'' = Some ''PartialDeletion''"
  by (simp_all add: mtpErrorTpl_def)

lemma mtp_dict:
  "map_of mtpErrorDictionary ''noMtp'' = Some ''No MTP device found.''"
  "map_of mtpErrorDictionary ''common'' = Some ''Oops.. Your MTP device has gone crazy! Try again.''"
  "map_of mtpErrorDictionary ''unResponsive'' = Some ''MTP device is not responding. Reload or reconnect device.''"
  "map_of mtpErrorDictionary ''mtpStorageNotAccessible'' = Some ''MTP storage not accessible.''"
  "map_of mtpErrorDictionary ''fileNotFound'' = Some ''File not found! Try again.''"
  "map_of mtpErrorDictionary ''partialDeletion'' = Some ''The path is inaccessible.''"
  by (simp_all add: mtpErrorDictionary_def)

section \<open>The decision of the MTP channel in closed form\<close>

lemma processMtpBuffer_outcome:
  "outcome (processMtpBuffer e s) =
     (if bothEmpty e s then
        Inr \<lparr>error = None, throwAlert = False, logError = True, status = Some True\<rparr>
      else if mentions e s ''No MTP device found'' then
        Inr \<lparr>error = Some ''No MTP device found.'',
             throwAlert = False, logError = False, status = Some False\<rparr>
      else if mentions e s ''invalid response code InvalidObjectHandle''
            \<or> mentions e s ''invalid response code InvalidStorageID''
            \<or> mentions e s ''WritePipe'' then
        Inr \<lparr>error = Some ''MTP device is not responding. Reload or reconnect device.'',
             throwAlert = True, logError = True, status = Some False\<rparr>
      else if mentions e s ''MTP storage not accessible'' \<or> mentions e s ''error: storage'' then
        Inr \<lparr>error = Some ''MTP storage not accessible.'',
             throwAlert = True, logError = True, status = Some False\<rparr>
      else if mentions e s ''could not find'' then
        Inr \<lparr>error = Some (sanitizeErrors (Some (if stringify s \<noteq> [] then stringify s else stringify e))),
             throwAlert = True, logError = True, status = Some True\<rparr>
      else if mentions e s ''No such file or directory'' then
        Inr \<lparr>error = Some ''File not found! Try again.'',
             throwAlert = True, logError = True, status = Some True\<rparr>
      else if mentions e s ''No files selected'' \<or> mentions e s ''Invalid path'' then
        Inr \<lparr>error = Some (sanitizeErrors (Some (if stringify s \<noteq> [] then stringify s else stringify e))),
             throwAlert = True, logError = True, status = Some True\<rparr>
      else if mentions e s ''PartialDeletion'' then
        Inr \<lparr>error = Some ''The path is inaccessible.'',
             throwAlert = True, logError = True, status = Some True\<rparr>
      else
        Inr \<lparr>error = Some ''Oops.. Your MTP device has gone crazy! Try again.'',
             throwAlert = True, logError = True, status = Some True\<rparr>)"
  unfolding processMtpBuffer_def Let_def
  by (simp add: checkError_known mtp_keys mtp_dict outcome_andThen_Inr outcome_ifThenElse
      orElse_Inr outcome_ret doLog_def emit_def bothEmpty_def del: map_of.simps)

section \<open>The decision of the Local channel in closed form, and the silent paths\<close>

lemma local_keys:
  "map_of localErrorTpl ''noPerm1'' = Some ''Operation not permitted''"
  "map_of localErrorTpl ''noPerm2'' = Some ''Permission denied''"
  "map_of localErrorTpl ''commandFailed'' = Some ''Command failed''"
  "map_of localErrorTpl ''noSuchFiles'' = Some ''No such file or directory''"
  "map_of localErrorTpl ''invalidPath'' = None"
  by (simp_all add: localErrorTpl_def)

lemma local_dict:
  "map_of localErrorDictionary ''noPerm'' = Some ''Operation not permitted.''"
  "map_of localErrorDictionary ''commandFailed'' = Some ''Could not complete! Try again.''"
  "map_of localErrorDictionary ''common'' = Some ''Oops.. Your device has gone crazy! Try again.''"
  "map_of localErrorDictionary ''fileNotFound'' = Some ''File not found! Try again.''"
  by (simp_all add: localErrorDictionary_def)

lemma processLocalBuffer_outcome:
  "outcome (processLocalBuffer e s) =
     (if bothEmpty e s then
        Inr \<lparr>error = None, throwAlert = False, logError = True, status = None\<rparr>
      else if mentions e s ''Operation not permitted'' \<or> mentions e s ''Permission denied'' then
        Inr \<lparr>error = Some ''Operation not permitted.'',
             throwAlert = True, logError = True, status = None\<rparr>
      else if mentions e s ''Command failed'' then
        Inr \<lparr>error = Some ''Could not complete! Try again.'',
             throwAlert = True, logError = True, status = None\<rparr>
      else if mentions e s ''No such file or directory'' then
        Inr \<lparr>error = Some ''File not found! Try again.'',
             throwAlert = True, logError = True, status = Some True\<rparr>
      else Inl TypeError)"
  unfolding processLocalBuffer_def Let_def
  by (simp add: checkError_known checkError_unknown local_keys local_dict outcome_andThen_Inr
      outcome_ifThenElse outcome_ifThenElse_Inl orElse_Inr outcome_ret doLog_def emit_def
      bothEmpty_def del: map_of.simps)

lemma processMtpBuffer_silent:
  "bothEmpty e s \<Longrightarrow> processMtpBuffer e s =
     (Inr \<lparr>error = None, throwAlert = False, logError = True, status = Some True\<rparr>, [])"
  by (simp add: processMtpBuffer_def bothEmpty_def ret_def)

lemma processLocalBuffer_silent:
  "bothEmpty e s \<Longrightarrow> processLocalBuffer e s =
     (Inr \<lparr>error = None, throwAlert = False, logError = True, status = None\<rparr>, [])"
  by (simp add: processLocalBuffer_def bothEmpty_def ret_def)

lemma toLowerCase_Nil_iff: "toLowerCase s = [] \<longleftrightarrow> s = []"
  by (simp add: toLowerCase_def)

lemma mentions_not_empty: "mentions e s p \<Longrightarrow> p \<noteq> [] \<Longrightarrow> \<not> bothEmpty e s"
  by (auto simp add: mentions_def bothEmpty_def toLowerCase_def)

lemma processMtpBuffer_noMtp:
  assumes "mentions e s ''No MTP device found''"
  shows "processMtpBuffer e s =
     (Inr \<lparr>error = Some ''No MTP device found.'', throwAlert = False, logError = False,
           status = Some False\<rparr>,
      [CheckError ''noMtp'', DoLog (mtpLogMessage (stringify e) (stringify s)) (Some False)])"
proof -
  have ne: "\<not> bothEmpty e s" using assms by (rule mentions_not_empty) simp
  then have "\<not> (stringify e = [] \<and> stringify s = [])" by (simp add: bothEmpty_def)
  then show ?thesis
    unfolding processMtpBuffer_def Let_def
    using assms
    by (simp add: checkError_known mtp_keys mtp_dict andThen_def doLog_def emit_def ret_def
        del: map_of.simps)
qed

lemma processMtpBuffer_returns: "\<exists>r. outcome (processMtpBuffer e s) = Inr r"
  by (simp add: processMtpBuffer_outcome)

text \<open>
  What the Local channel does once no pattern of its \<^verbatim>\<open>errorTpl\<close> is mentioned, and where
  the \<^verbatim>\<open>error\<close> text of a returned result comes from: it is \<^verbatim>\<open>null\<close>, an entry of the
  channel's \<^verbatim>\<open>errorDictionary\<close>, or (MTP only) an output of \<^verbatim>\<open>sanitizeErrors\<close>.
\<close>

lemma processLocalBuffer_unmatched:
  "\<not> bothEmpty e s \<Longrightarrow> \<not> mentions e s ''Operation not permitted'' \<Longrightarrow>
   \<not> mentions e s ''Permission denied'' \<Longrightarrow> \<not> mentions e s ''Command failed'' \<Longrightarrow>
   \<not> mentions e s ''No such file or directory'' \<Longrightarrow>
   outcome (processLocalBuffer e s) = Inl TypeError"
  by (simp add: processLocalBuffer_outcome)

lemma processMtpBuffer_error_field:
  assumes "outcome (processMtpBuffer e s) = Inr r"
  shows "error r = None \<or> error r \<in> Some ` snd ` set mtpErrorDictionary \<or>
         error r = Some (sanitizeErrors (Some (if stringify s \<noteq> [] then stringify s else stringify e)))"
  using assms
  by (auto simp add: processMtpBuffer_outcome mtpErrorDictionary_def split: if_splits)

lemma processLocalBuffer_error_field:
  assumes "outcome (processLocalBuffer e s) = Inr r"
  shows "error r = None \<or> error r \<in> Some ` snd ` set localErrorDictionary"
  using assms
  by (auto simp add: processLocalBuffer_outcome localErrorDictionary_def split: if_splits)

section \<open>Lemmas on the sanitizer\<close>






















lemma sanitizeErrors_With: "sanitizeErrors string = sanitizeErrorsWith replaceBulk string"
  by (simp add: sanitizeErrors_def sanitizeErrorsWith_def)












text \<open>
  The one-pass \<open>replaceBulk\<close> leaves what it puts together, and \<open>sanitizeErrors\<close> with it
  changes its own result on such a string.
\<close>

lemma replaceBulk_single_pass:
  "replaceBulk ''a eerror:rror:b'' [''error:'', ''stat failed:''] ['''', ''''] = ''a error:b'' \<and>
   sanitizeErrors (Some ''a eerror:rror:b'') = ''A error:b'' \<and>
   sanitizeErrors (Some ''A error:b'') = ''A b''"
  by code_simp

lemma replaceBulk_not_removesAll: "\<not> removesAllOccurrences replaceBulk"
proof
  assume "removesAllOccurrences replaceBulk"
  then have "\<not> sublist ''error:'' (replaceBulk ''eerror:rror:'' [''error:'', ''stat failed:''] ['''', ''''])"
    unfolding removesAllOccurrences_def by blast
  moreover have "replaceBulk ''eerror:rror:'' [''error:'', ''stat failed:''] ['''', ''''] = ''error:''"
    by code_simp
  ultimately show False by simp
qed


section \<open>The claims\<close>

text \<open>
  Claim C1: for inputs whose fields are strings, \<^verbatim>\<open>Error\<close> values or \<^verbatim>\<open>null\<close>, both
  classifiers return a structured result and never throw. On the Local channel the code
  does throw: \<^verbatim>\<open>errorTpl\<close> of \<^verbatim>\<open>processLocalBuffer\<close> has no \<^verbatim>\<open>invalidPath\<close> entry, so
  \<^verbatim>\<open>checkError('invalidPath')\<close> calls \<^verbatim>\<open>toLowerCase\<close> on \<^verbatim>\<open>undefined\<close>. The input below is the
  one \<^verbatim>\<open>renameFile\<close> and \<^verbatim>\<open>deleteFiles\<close> build when nothing is selected. (The MTP channel
  always returns, \<open>processMtpBuffer_returns\<close>, and the Local channel throws on every
  non-empty input without one of its four patterns, \<open>processLocalBuffer_unmatched\<close>.)
\<close>

theorem processLocalBuffer_throws:
  "outcome (processLocalBuffer (JStr ''No files selected.'') JNull) = Inl TypeError"
  by code_simp

text \<open>
  The Local result for a failed command has no \<^verbatim>\<open>status\<close> property although the input
  is not empty.
\<close>

theorem local_status_claim_counterexample:
  "\<not> bothEmpty (JStr ''Command failed: mv'') JNull \<and>
   outcome (processLocalBuffer (JStr ''Command failed: mv'') JNull) =
     Inr \<lparr>error = Some ''Could not complete! Try again.'', throwAlert = True, logError = True,
          status = None\<rparr>"
  by code_simp

text \<open>
  Claim C2, as amended: on the Local channel the silent-success result has no \<^verbatim>\<open>status\<close>
  property, the results for the no-permission and command-failed patterns have none
  either, and the result for the no-such-file pattern (when no earlier pattern is
  mentioned) carries \<^verbatim>\<open>status: true\<close>. In each of these cases the call returns.
\<close>

theorem local_status_field:
  assumes "bothEmpty e s \<or> mentions e s ''Operation not permitted'' \<or>
           mentions e s ''Permission denied'' \<or> mentions e s ''Command failed'' \<or>
           mentions e s ''No such file or directory''"
  shows "\<exists>r. outcome (processLocalBuffer e s) = Inr r \<and>
           status r =
             (if bothEmpty e s \<or> mentions e s ''Operation not permitted'' \<or>
                 mentions e s ''Permission denied'' \<or> mentions e s ''Command failed''
              then None else Some True)"
  using assms by (auto simp add: processLocalBuffer_outcome)

text \<open>
  The theorem at the empty input, at a permission error and at an \<^verbatim>\<open>ENOENT\<close> error of
  \<^verbatim>\<open>fs.rename\<close>.
\<close>

theorem local_status_field_witness:
  "(\<exists>r. outcome (processLocalBuffer JNull JNull) = Inr r \<and> status r = None) \<and>
   (\<exists>r. outcome (processLocalBuffer (JStr ''Permission denied'') JNull) = Inr r \<and> status r = None) \<and>
   (\<exists>r. outcome (processLocalBuffer
           (JError ''Error'' ''ENOENT: no such file or directory, rename /a/b'') JNull) = Inr r \<and>
        status r = Some True)"
proof -
  have a: "bothEmpty JNull JNull" by code_simp
  let ?p = "JStr ''Permission denied''"
  have b: "mentions ?p JNull ''Permission denied''" by code_simp
  let ?n = "JError ''Error'' ''ENOENT: no such file or directory, rename /a/b''"
  have c: "mentions ?n JNull ''No such file or directory''" by code_simp
  have c1: "\<not> bothEmpty ?n JNull" by code_simp
  have c2: "\<not> mentions ?n JNull ''Operation not permitted''" by code_simp
  have c3: "\<not> mentions ?n JNull ''Permission denied''" by code_simp
  have c4: "\<not> mentions ?n JNull ''Command failed''" by code_simp
  show ?thesis
    using local_status_field [of JNull JNull] a
      local_status_field [of ?p JNull] b
      local_status_field [of ?n JNull] c c1 c2 c3 c4
    by simp
qed

text \<open>
  Claim C3: a non-empty Local input that mentions none of the known patterns gets the
  generic catch-all message with \<^verbatim>\<open>throwAlert: true\<close> and \<^verbatim>\<open>logError: true\<close>. The code does
  not reach its catch-all branch: the check before it, \<^verbatim>\<open>checkError('invalidPath')\<close>,
  throws a \<^verbatim>\<open>TypeError\<close>, here on an \<^verbatim>\<open>EBUSY\<close> error of \<^verbatim>\<open>rimraf\<close>.
\<close>

theorem local_common_unreachable:
  "\<not> bothEmpty (JError ''Error'' ''EBUSY: resource busy or locked, rmdir /Volumes/data'') JNull \<and>
   \<not> mentions (JError ''Error'' ''EBUSY: resource busy or locked, rmdir /Volumes/data'') JNull ''Operation not permitted'' \<and>
   \<not> mentions (JError ''Error'' ''EBUSY: resource busy or locked, rmdir /Volumes/data'') JNull ''Permission denied'' \<and>
   \<not> mentions (JError ''Error'' ''EBUSY: resource busy or locked, rmdir /Volumes/data'') JNull ''Command failed'' \<and>
   \<not> mentions (JError ''Error'' ''EBUSY: resource busy or locked, rmdir /Volumes/data'') JNull ''No such file or directory'' \<and>
   \<not> mentions (JError ''Error'' ''EBUSY: resource busy or locked, rmdir /Volumes/data'') JNull ''Invalid path'' \<and>
   outcome (processLocalBuffer (JError ''Error'' ''EBUSY: resource busy or locked, rmdir /Volumes/data'') JNull) = Inl TypeError"
  by code_simp

text \<open>
  Claim C4: a Local input of the invalid-path kind, with no earlier pattern mentioned,
  gets the sanitized raw text as its \<^verbatim>\<open>error\<close>. On the input that \<^verbatim>\<open>makeDirectory\<close> builds
  for a missing path the code logs, runs its five checks and throws a \<^verbatim>\<open>TypeError\<close> at the
  last one; the sanitized text would be \<^verbatim>\<open>Invalid path.\<close>
\<close>

theorem local_invalidPath_throws:
  "mentions (JStr ''Invalid path.'') JNull ''Invalid path'' \<and>
   \<not> mentions (JStr ''Invalid path.'') JNull ''Operation not permitted'' \<and>
   \<not> mentions (JStr ''Invalid path.'') JNull ''Permission denied'' \<and>
   \<not> mentions (JStr ''Invalid path.'') JNull ''Command failed'' \<and>
   \<not> mentions (JStr ''Invalid path.'') JNull ''No such file or directory'' \<and>
   sanitizeErrors (Some ''Invalid path.'') = ''Invalid path.'' \<and>
   processLocalBuffer (JStr ''Invalid path.'') JNull =
     (Inl TypeError,
      [DoLog (localLogMessage ''Invalid path.'' []) None, CheckError ''noPerm1'',
       CheckError ''noPerm2'', CheckError ''commandFailed'', CheckError ''noSuchFiles'',
       CheckError ''invalidPath''])"
  by code_simp

text \<open>
  An input with \<^verbatim>\<open>storage not accessible\<close> but without \<^verbatim>\<open>MTP\<close> in front of it falls to
  the catch-all, and an input with \<^verbatim>\<open>error: storage\<close> that also mentions \<^verbatim>\<open>WritePipe\<close> is
  classified as unresponsive.
\<close>

theorem storage_claim_counterexample:
  "mentions JNull (JStr ''storage not accessible'') ''storage not accessible'' \<and>
   outcome (processMtpBuffer JNull (JStr ''storage not accessible'')) =
     Inr \<lparr>error = Some ''Oops.. Your MTP device has gone crazy! Try again.'',
          throwAlert = True, logError = True, status = Some True\<rparr> \<and>
   mentions JNull (JStr ''error: storage: WritePipe failed'') ''error: storage'' \<and>
   outcome (processMtpBuffer JNull (JStr ''error: storage: WritePipe failed'')) =
     Inr \<lparr>error = Some ''MTP device is not responding. Reload or reconnect device.'',
          throwAlert = True, logError = True, status = Some False\<rparr>"
  by code_simp

text \<open>
  Claim C5, as amended: every MTP input that mentions \<^verbatim>\<open>MTP storage not accessible\<close> or
  \<^verbatim>\<open>error: storage\<close> (in any case) and none of the four patterns checked earlier
  (\<^verbatim>\<open>No MTP device found\<close>, the two \<^verbatim>\<open>invalid response code\<close> patterns, \<^verbatim>\<open>WritePipe\<close>) gets
  exactly the result \<^verbatim>\<open>MTP storage not accessible.\<close> with \<^verbatim>\<open>throwAlert: true\<close>,
  \<^verbatim>\<open>logError: true\<close> and \<^verbatim>\<open>status: false\<close>.
\<close>

theorem storage_not_accessible:
  assumes "mentions e s ''MTP storage not accessible'' \<or> mentions e s ''error: storage''"
    and "\<not> mentions e s ''No MTP device found''"
    and "\<not> mentions e s ''invalid response code InvalidObjectHandle''"
    and "\<not> mentions e s ''invalid response code InvalidStorageID''"
    and "\<not> mentions e s ''WritePipe''"
  shows "outcome (processMtpBuffer e s) =
     Inr \<lparr>error = Some ''MTP storage not accessible.'', throwAlert = True, logError = True,
          status = Some False\<rparr>"
proof -
  have "\<not> bothEmpty e s"
    using assms(1) by (auto dest: mentions_not_empty)
  then show ?thesis using assms by (simp add: processMtpBuffer_outcome)
qed

text \<open>
  The theorem at an input that matches the second pattern in another case.
\<close>

theorem storage_not_accessible_witness:
  "(mentions JNull (JStr ''Error: storage is locked'') ''MTP storage not accessible'' \<or>
    mentions JNull (JStr ''Error: storage is locked'') ''error: storage'') \<and>
   \<not> mentions JNull (JStr ''Error: storage is locked'') ''No MTP device found'' \<and>
   \<not> mentions JNull (JStr ''Error: storage is locked'') ''invalid response code InvalidObjectHandle'' \<and>
   \<not> mentions JNull (JStr ''Error: storage is locked'') ''invalid response code InvalidStorageID'' \<and>
   \<not> mentions JNull (JStr ''Error: storage is locked'') ''WritePipe'' \<and>
   outcome (processMtpBuffer JNull (JStr ''Error: storage is locked'')) =
     Inr \<lparr>error = Some ''MTP storage not accessible.'', throwAlert = True, logError = True,
          status = Some False\<rparr>"
proof -
  let ?e = "JNull" and ?s = "JStr ''Error: storage is locked''"
  have h1: "mentions ?e ?s ''MTP storage not accessible'' \<or> mentions ?e ?s ''error: storage''"
    by code_simp
  have h2: "\<not> mentions ?e ?s ''No MTP device found''" by code_simp
  have h3: "\<not> mentions ?e ?s ''invalid response code InvalidObjectHandle''" by code_simp
  have h4: "\<not> mentions ?e ?s ''invalid response code InvalidStorageID''" by code_simp
  have h5: "\<not> mentions ?e ?s ''WritePipe''" by code_simp
  show ?thesis using h1 h2 h3 h4 h5 storage_not_accessible [OF h1 h2 h3 h4 h5] by simp
qed

text \<open>
  For the \<^verbatim>\<open>PartialDeletion\<close> and the \<^verbatim>\<open>No such file or directory\<close> patterns the message is a
  fixed text of \<^verbatim>\<open>errorDictionary\<close>, not the sanitized raw text.
\<close>

theorem mtp_dynamic_claim_counterexample:
  "mentions JNull (JStr ''PartialDeletion: /sdcard/DCIM'') ''PartialDeletion'' \<and>
   outcome (processMtpBuffer JNull (JStr ''PartialDeletion: /sdcard/DCIM'')) =
     Inr \<lparr>error = Some ''The path is inaccessible.'', throwAlert = True, logError = True,
          status = Some True\<rparr> \<and>
   sanitizeErrors (Some ''PartialDeletion: /sdcard/DCIM'') = ''PartialDeletion: /sdcard/DCIM'' \<and>
   mentions (JStr ''stat failed: No such file or directory'') JNull ''No such file or directory'' \<and>
   outcome (processMtpBuffer (JStr ''stat failed: No such file or directory'') JNull) =
     Inr \<lparr>error = Some ''File not found! Try again.'', throwAlert = True, logError = True,
          status = Some True\<rparr> \<and>
   sanitizeErrors (Some ''stat failed: No such file or directory'') = ''No such file or directory''"
  by code_simp

text \<open>
  Claim C6, as amended: on the MTP channel an input that mentions none of the six patterns
  checked earlier and at least one of \<^verbatim>\<open>could not find\<close>, \<^verbatim>\<open>No such file or directory\<close>,
  \<^verbatim>\<open>No files selected\<close>, \<^verbatim>\<open>Invalid path\<close>, \<^verbatim>\<open>PartialDeletion\<close> gets a result with
  \<^verbatim>\<open>throwAlert: true\<close>, \<^verbatim>\<open>logError: true\<close> and \<^verbatim>\<open>status: true\<close>. Its message is the
  sanitized raw text (\<^verbatim>\<open>stderr\<close> if not empty, else \<^verbatim>\<open>error\<close>) for the file-not-found,
  no-files-selected and invalid-path kinds, the fixed \<^verbatim>\<open>File not found! Try again.\<close> for
  the no-such-file kind and the fixed \<^verbatim>\<open>The path is inaccessible.\<close> for the
  partial-deletion kind, the kinds taken in the order of the checks.
\<close>

theorem mtp_recoverable_kinds:
  assumes "\<not> mentions e s ''No MTP device found''"
    and "\<not> mentions e s ''invalid response code InvalidObjectHandle''"
    and "\<not> mentions e s ''invalid response code InvalidStorageID''"
    and "\<not> mentions e s ''WritePipe''"
    and "\<not> mentions e s ''MTP storage not accessible''"
    and "\<not> mentions e s ''error: storage''"
    and "mentions e s ''could not find'' \<or> mentions e s ''No such file or directory'' \<or>
         mentions e s ''No files selected'' \<or> mentions e s ''Invalid path'' \<or>
         mentions e s ''PartialDeletion''"
  shows "outcome (processMtpBuffer e s) =
     Inr \<lparr>error = Some
            (if mentions e s ''could not find'' then
               sanitizeErrors (Some (if stringify s \<noteq> [] then stringify s else stringify e))
             else if mentions e s ''No such file or directory'' then ''File not found! Try again.''
             else if mentions e s ''No files selected'' \<or> mentions e s ''Invalid path'' then
               sanitizeErrors (Some (if stringify s \<noteq> [] then stringify s else stringify e))
             else ''The path is inaccessible.''),
          throwAlert = True, logError = True, status = Some True\<rparr>"
proof -
  have "\<not> bothEmpty e s"
    using assms(7) by (auto dest: mentions_not_empty)
  then show ?thesis using assms by (auto simp add: processMtpBuffer_outcome)
qed

text \<open>
  The theorem at an input of the file-not-found kind, whose \<^verbatim>\<open>stderr\<close> is preferred for the
  message, and at one of the partial-deletion kind.
\<close>

theorem mtp_recoverable_kinds_witness:
  "outcome (processMtpBuffer (JStr ''error: could not find /sdcard/a.txt'') (JStr ''  No files selected  '')) =
     Inr \<lparr>error = Some ''No files selected'', throwAlert = True, logError = True,
          status = Some True\<rparr> \<and>
   outcome (processMtpBuffer (JStr ''PartialDeletion'') JNull) =
     Inr \<lparr>error = Some ''The path is inaccessible.'', throwAlert = True, logError = True,
          status = Some True\<rparr>"
proof -
  let ?e = "JStr ''error: could not find /sdcard/a.txt''" and ?s = "JStr ''  No files selected  ''"
  have h1: "\<not> mentions ?e ?s ''No MTP device found''" by code_simp
  have h2: "\<not> mentions ?e ?s ''invalid response code InvalidObjectHandle''" by code_simp
  have h3: "\<not> mentions ?e ?s ''invalid response code InvalidStorageID''" by code_simp
  have h4: "\<not> mentions ?e ?s ''WritePipe''" by code_simp
  have h5: "\<not> mentions ?e ?s ''MTP storage not accessible''" by code_simp
  have h6: "\<not> mentions ?e ?s ''error: storage''" by code_simp
  have h7: "mentions ?e ?s ''could not find''" by code_simp
  have h7': "mentions ?e ?s ''could not find'' \<or> mentions ?e ?s ''No such file or directory'' \<or>
         mentions ?e ?s ''No files selected'' \<or> mentions ?e ?s ''Invalid path'' \<or>
         mentions ?e ?s ''PartialDeletion''" using h7 by simp
  have v: "sanitizeErrors (Some (if stringify ?s \<noteq> [] then stringify ?s else stringify ?e)) = ''No files selected''"
    by code_simp
  let ?e' = "JStr ''PartialDeletion''" and ?s' = "JNull"
  have g1: "\<not> mentions ?e' ?s' ''No MTP device found''" by code_simp
  have g2: "\<not> mentions ?e' ?s' ''invalid response code InvalidObjectHandle''" by code_simp
  have g3: "\<not> mentions ?e' ?s' ''invalid response code InvalidStorageID''" by code_simp
  have g4: "\<not> mentions ?e' ?s' ''WritePipe''" by code_simp
  have g5: "\<not> mentions ?e' ?s' ''MTP storage not accessible''" by code_simp
  have g6: "\<not> mentions ?e' ?s' ''error: storage''" by code_simp
  have g7: "mentions ?e' ?s' ''PartialDeletion''" by code_simp
  have g7': "mentions ?e' ?s' ''could not find'' \<or> mentions ?e' ?s' ''No such file or directory'' \<or>
         mentions ?e' ?s' ''No files selected'' \<or> mentions ?e' ?s' ''Invalid path'' \<or>
         mentions ?e' ?s' ''PartialDeletion''" using g7 by simp
  have n1: "\<not> mentions ?e' ?s' ''could not find''" by code_simp
  have n2: "\<not> mentions ?e' ?s' ''No such file or directory''" by code_simp
  have n3: "\<not> mentions ?e' ?s' ''No files selected''" by code_simp
  have n4: "\<not> mentions ?e' ?s' ''Invalid path''" by code_simp
  show ?thesis
    using mtp_recoverable_kinds [OF h1 h2 h3 h4 h5 h6 h7'] h7 v
      mtp_recoverable_kinds [OF g1 g2 g3 g4 g5 g6 g7'] n1 n2 n3 n4
    by simp
qed

text \<open>
  Claim C7: every MTP input that mentions \<^verbatim>\<open>No MTP device found\<close> in any case, whatever
  else it mentions, gets exactly the result \<^verbatim>\<open>No MTP device found.\<close> with
  \<^verbatim>\<open>throwAlert: false\<close>, \<^verbatim>\<open>logError: false\<close> and \<^verbatim>\<open>status: false\<close>; no other pattern is
  even checked, and the log call carries the flag \<^verbatim>\<open>false\<close>.
\<close>

theorem noMtp_first:
  "mentions e s ''No MTP device found'' \<Longrightarrow>
   outcome (processMtpBuffer e s) =
     Inr \<lparr>error = Some ''No MTP device found.'', throwAlert = False, logError = False,
          status = Some False\<rparr> \<and>
   events (processMtpBuffer e s) =
     [CheckError ''noMtp'', DoLog (mtpLogMessage (stringify e) (stringify s)) (Some False)]"
  by (simp add: processMtpBuffer_noMtp outcome_def events_def)

text \<open>
  The theorem at an input that also mentions the storage and the \<^verbatim>\<open>WritePipe\<close> patterns.
\<close>

theorem noMtp_first_witness:
  "mentions JNull (JStr ''MTP storage not accessible: No MTP Device Found (WritePipe)'')
     ''No MTP device found'' \<and>
   outcome (processMtpBuffer JNull (JStr ''MTP storage not accessible: No MTP Device Found (WritePipe)'')) =
     Inr \<lparr>error = Some ''No MTP device found.'', throwAlert = False, logError = False,
          status = Some False\<rparr>"
proof -
  have h: "mentions JNull (JStr ''MTP storage not accessible: No MTP Device Found (WritePipe)'')
     ''No MTP device found''"
    by code_simp
  show ?thesis using h noMtp_first [OF h] by simp
qed

text \<open>
  Claim C8: when both fields are \<^verbatim>\<open>null\<close> or stringify to the empty string, either
  classifier returns its silent-success result (\<^verbatim>\<open>error: null\<close>, \<^verbatim>\<open>throwAlert: false\<close>, and
  \<^verbatim>\<open>status: true\<close> on the MTP channel), and its trace is empty: no call of
  \<^verbatim>\<open>checkError\<close> and no call of \<^verbatim>\<open>log.doLog\<close>.
\<close>

theorem silent_success:
  "bothEmpty e s \<Longrightarrow>
   outcome (processMtpBuffer e s) =
     Inr \<lparr>error = None, throwAlert = False, logError = True, status = Some True\<rparr> \<and>
   events (processMtpBuffer e s) = [] \<and>
   outcome (processLocalBuffer e s) =
     Inr \<lparr>error = None, throwAlert = False, logError = True, status = None\<rparr> \<and>
   events (processLocalBuffer e s) = []"
  by (simp add: processMtpBuffer_silent processLocalBuffer_silent outcome_def events_def)

text \<open>
  The theorem at \<^verbatim>\<open>{error: null, stderr: ''}\<close>.
\<close>

theorem silent_success_witness:
  "bothEmpty JNull (JStr '''') \<and>
   outcome (processMtpBuffer JNull (JStr '''')) =
     Inr \<lparr>error = None, throwAlert = False, logError = True, status = Some True\<rparr> \<and>
   events (processMtpBuffer JNull (JStr '''')) = [] \<and>
   outcome (processLocalBuffer JNull (JStr '''')) =
     Inr \<lparr>error = None, throwAlert = False, logError = True, status = None\<rparr> \<and>
   events (processLocalBuffer JNull (JStr '''')) = []"
proof -
  have h: "bothEmpty JNull (JStr '''')" by (simp add: bothEmpty_def stringify_def)
  show ?thesis using h silent_success [OF h] by simp
qed



text \<open>
  Claim C10: on both channels the silent-success result, returned when both fields are
  empty or \<^verbatim>\<open>null\<close>, carries \<^verbatim>\<open>logError: true\<close>, although nothing was logged (the trace is
  empty).
\<close>

theorem silent_success_logError:
  "bothEmpty e s \<Longrightarrow>
   (\<exists>r. processMtpBuffer e s = (Inr r, []) \<and> logError r) \<and>
   (\<exists>r. processLocalBuffer e s = (Inr r, []) \<and> logError r)"
  by (simp add: processMtpBuffer_silent processLocalBuffer_silent)

text \<open>
  The theorem at \<^verbatim>\<open>{error: null, stderr: null}\<close>.
\<close>

theorem silent_success_logError_witness:
  "bothEmpty JNull JNull \<and>
   (\<exists>r. processMtpBuffer JNull JNull = (Inr r, []) \<and> logError r) \<and>
   (\<exists>r. processLocalBuffer JNull JNull = (Inr r, []) \<and> logError r)"
proof -
  have h: "bothEmpty JNull JNull" by (simp add: bothEmpty_def stringify_def)
  show ?thesis using h silent_success_logError [OF h] by simp
qed

end
